theory Spec2Isabelle
  imports Main
begin

section \<open>Python values and exceptions\<close>

text \<open>
  The values that defaults, parsed environment strings and namespace attributes range
  over: \<open>None\<close>, booleans, integers, strings, lists, tuples, sets and dicts. A set is kept
  as the list of its members without duplicates, a dict as the list of its items in
  insertion order. Floats and \<open>Decimal\<close>s are outside this universe. Strings are taken to
  be ASCII: one \<open>char\<close> is one code point below 128.
\<close>

datatype pyval =
    PNone
  | PBool bool
  | PInt int
  | PStr string
  | PList "pyval list"
  | PTuple "pyval list"
  | PSet "pyval list"
  | PDict "(pyval \<times> pyval) list"

text \<open>
  Exceptions of the standard library and of Django, raised by the code itself or by the
  callables it is handed (casters, converters, validators, \<open>ast.literal_eval\<close>).
\<close>

datatype pyexc =
    TypeError
  | ValueError
  | SyntaxError
  | AttributeError
  | ImportError
  | InvalidOperation
  | ValidationError string
  | OtherException string

text \<open>
  What \<open>values.py\<close> and \<open>importer.py\<close> raise. \<open>ValueProcessingError\<close> keeps the raw value it
  was raised with; the reference to the descriptor and the explanation lines are left
  out. \<open>ConfigurationError\<close> keeps its message and the exception it is chained to.
\<close>

datatype error =
    Builtin pyexc
  | ValueRetrievalError
  | ValueProcessingError string
  | ImproperlyConfigured
  | ConfigurationError string error

text \<open>Python truthiness (\<open>bool(v)\<close>, \<open>if v:\<close>, \<open>not v\<close>).\<close>

fun truthy :: "pyval \<Rightarrow> bool" where
  "truthy PNone = False"
| "truthy (PBool b) = b"
| "truthy (PInt i) = (i \<noteq> 0)"
| "truthy (PStr s) = (s \<noteq> [])"
| "truthy (PList xs) = (xs \<noteq> [])"
| "truthy (PTuple xs) = (xs \<noteq> [])"
| "truthy (PSet xs) = (xs \<noteq> [])"
| "truthy (PDict kvs) = (kvs \<noteq> [])"

text \<open>Truthiness of an attribute that is a string or \<open>None\<close> (\<open>if self.environ_name:\<close>).\<close>

fun truthy_str :: "string option \<Rightarrow> bool" where
  "truthy_str None = False"
| "truthy_str (Some s) = (s \<noteq> [])"

text \<open>Iterating a value (\<open>for x in v\<close>, \<open>list(v)\<close>, \<open>tuple(v)\<close>).\<close>

fun iter_of :: "pyval \<Rightarrow> pyexc + pyval list" where
  "iter_of (PList xs) = Inr xs"
| "iter_of (PTuple xs) = Inr xs"
| "iter_of (PSet xs) = Inr xs"
| "iter_of (PStr s) = Inr (map (\<lambda>c. PStr [c]) s)"
| "iter_of (PDict kvs) = Inr (map fst kvs)"
| "iter_of PNone = Inl TypeError"
| "iter_of (PBool b) = Inl TypeError"
| "iter_of (PInt i) = Inl TypeError"

section \<open>String methods\<close>

text \<open>
  \<open>str.isspace\<close> on ASCII: tab, line feed, vertical tab, form feed, carriage return, the
  four separators 28 to 31, and the space.
\<close>

definition isspace :: "char \<Rightarrow> bool" where
  "isspace c = (let n = (of_char c :: nat) in (9 \<le> n \<and> n \<le> 13) \<or> (28 \<le> n \<and> n \<le> 32))"

definition str_strip :: "string \<Rightarrow> string" where
  "str_strip s = rev (dropWhile isspace (rev (dropWhile isspace s)))"

definition lower_char :: "char \<Rightarrow> char" where
  "lower_char c = (let n = (of_char c :: nat) in if 65 \<le> n \<and> n \<le> 90 then char_of (n + 32) else c)"

definition upper_char :: "char \<Rightarrow> char" where
  "upper_char c = (let n = (of_char c :: nat) in if 97 \<le> n \<and> n \<le> 122 then char_of (n - 32) else c)"

definition str_lower :: "string \<Rightarrow> string" where
  "str_lower s = map lower_char s"

definition str_upper :: "string \<Rightarrow> string" where
  "str_upper s = map upper_char s"

text \<open>
  \<open>s.split(sep)\<close> for a separator given as a string: the pieces between the
  non-overlapping occurrences of \<open>sep\<close>, found from the left; an empty separator raises
  \<open>ValueError\<close>.
\<close>

function str_split_aux :: "string \<Rightarrow> string \<Rightarrow> string \<Rightarrow> string list" where
  "str_split_aux sep acc s =
     (if s = [] then [rev acc]
      else if sep \<noteq> [] \<and> take (length sep) s = sep
        then rev acc # str_split_aux sep [] (drop (length sep) s)
      else str_split_aux sep (hd s # acc) (tl s))"
  by pat_completeness auto
termination
  by (relation "measure (\<lambda>(sep, acc, s). length s)") auto

declare str_split_aux.simps [simp del]

definition str_split :: "string \<Rightarrow> string \<Rightarrow> pyexc + string list" where
  "str_split sep s = (if sep = [] then Inl ValueError else Inr (str_split_aux sep [] s))"

text \<open>\<open>sep.join(items)\<close>: every item has to be a string, else \<open>TypeError\<close>.\<close>

fun the_strs :: "pyval list \<Rightarrow> string list option" where
  "the_strs [] = Some []"
| "the_strs (PStr s # xs) = (case the_strs xs of None \<Rightarrow> None | Some ss \<Rightarrow> Some (s # ss))"
| "the_strs (_ # xs) = None"

fun intercalate :: "string \<Rightarrow> string list \<Rightarrow> string" where
  "intercalate sep [] = []"
| "intercalate sep [s] = s"
| "intercalate sep (s # t # ss) = s @ sep @ intercalate sep (t # ss)"

definition str_join :: "string \<Rightarrow> pyval list \<Rightarrow> pyexc + string" where
  "str_join sep items =
     (case the_strs items of None \<Rightarrow> Inl TypeError | Some ss \<Rightarrow> Inr (intercalate sep ss))"

section \<open>The process: environment and standard library\<close>

text \<open>
  What the code reads from outside: \<open>os.environ\<close>, the three functions of \<open>os.path\<close> that
  \<open>PathValue\<close> calls, and \<open>ast.literal_eval\<close>. They are parameters of the model. The field
  \<open>lookups\<close> is not in the source: it counts how often \<open>Value.setup\<close> has consulted
  \<open>os.environ\<close>.
\<close>

record process =
  os_environ :: "string \<rightharpoonup> string"
  lookups :: nat
  expanduser :: "string \<Rightarrow> string"
  path_exists :: "string \<Rightarrow> bool"
  abspath :: "string \<Rightarrow> string"
  literal_eval :: "string \<Rightarrow> pyexc + pyval"

section \<open>Descriptors\<close>

text \<open>
  The classes of \<open>values.py\<close>. What a class or an instance holds beyond the attributes of
  \<open>Value\<close> is an argument of its constructor here: the caster of a \<open>CastingMixin\<close> class
  (with the keyword parameters already bound) and the exceptions it translates
  (\<open>self.exception\<close>); the separator and the converter of a sequence; the validator of a
  \<open>ValidationMixin\<close> class (\<open>None\<close> when the value passes); \<open>check_exists\<close> of a path; the
  alias of a dict backend. \<open>IntegerValue\<close>, \<open>FloatValue\<close> and \<open>DecimalValue\<close> are
  \<open>CastingValue\<close>s; \<open>EmailValue\<close>, \<open>URLValue\<close>, \<open>IPValue\<close> and \<open>RegexValue\<close> are
  \<open>ValidationValue\<close>s; \<open>ListValue\<close> and \<open>TupleValue\<close> are \<open>SequenceValue\<close>s;
  \<open>DatabaseURLValue\<close>, \<open>CacheURLValue\<close> and \<open>SearchURLValue\<close> are \<open>DictBackendValue\<close>s.
  Casters, converters and validators raise exceptions of \<open>pyexc\<close> only; \<open>BackendsValue\<close>,
  whose converter raises \<open>ValueProcessingError\<close> itself, is the one class left out.
\<close>

datatype seq_type = SeqList | SeqTuple

datatype value_class =
    Value
  | BooleanValue
  | CastingValue "string \<Rightarrow> pyexc + pyval" "pyexc \<Rightarrow> bool"
  | PositiveIntegerValue "string \<Rightarrow> pyexc + int" "pyexc \<Rightarrow> bool"
  | SequenceValue seq_type string "(pyval \<Rightarrow> pyexc + pyval) option"
  | SingleNestedSequenceValue seq_type string string "(pyval \<Rightarrow> pyexc + pyval) option"
  | SetValue string "(pyval \<Rightarrow> pyexc + pyval) option"
  | DictValue
  | ValidationValue "string \<Rightarrow> pyexc option"
  | PathValue bool
  | SecretValue
  | EmailURLValue "string \<Rightarrow> pyexc + pyval" "pyexc \<Rightarrow> bool"
  | DictBackendValue string "string \<Rightarrow> pyexc + pyval" "pyexc \<Rightarrow> bool"

text \<open>
  An instance. \<open>cached_value\<close> is the attribute \<open>_value\<close>: \<open>None\<close> as long as the instance
  has no such attribute (\<open>hasattr(self, '_value')\<close> is false).
\<close>

record descriptor =
  cls :: value_class
  default_value :: pyval
  environ :: bool
  environ_prefix :: "string option"
  environ_name :: "string option"
  environ_required :: bool
  destination_name :: "string option"
  cached_value :: "pyval option"

text \<open>The class attribute \<open>multiple\<close>: only \<open>EmailURLValue\<close> mixes \<open>MultipleMixin\<close> in.\<close>

fun multiple :: "value_class \<Rightarrow> bool" where
  "multiple (EmailURLValue c x) = True"
| "multiple _ = False"

subsection \<open>\<open>Value.full_environ_name\<close>\<close>

text \<open>
  With no \<open>environ_name\<close> and no destination name yet, \<open>self.destination_name.upper()\<close>
  raises \<open>AttributeError\<close>.
\<close>

definition full_environ_name :: "descriptor \<Rightarrow> pyexc + string" where
  "full_environ_name d =
     (case (if truthy_str (environ_name d) then Inr (the (environ_name d))
            else (case destination_name d of
                    None \<Rightarrow> Inl AttributeError
                  | Some n \<Rightarrow> Inr (str_upper n))) of
        Inl e \<Rightarrow> Inl e
      | Inr n \<Rightarrow>
          Inr (if truthy_str (environ_prefix d) then the (environ_prefix d) @ ''_'' @ n else n))"

subsection \<open>\<open>to_python\<close>\<close>

definition true_values :: "string list" where
  "true_values = [''yes'', ''y'', ''true'', ''1'']"

definition false_values :: "string list" where
  "false_values = [''no'', ''n'', ''false'', ''0'', '''']"

definition BooleanValue_to_python :: "string \<Rightarrow> error + pyval" where
  "BooleanValue_to_python v =
     (let normalized_value = str_lower (str_strip v) in
      if normalized_value \<in> set true_values then Inr (PBool True)
      else if normalized_value \<in> set false_values then Inr (PBool False)
      else Inl (ValueProcessingError v))"

definition CastingMixin_to_python ::
  "(string \<Rightarrow> pyexc + 'a) \<Rightarrow> (pyexc \<Rightarrow> bool) \<Rightarrow> string \<Rightarrow> error + 'a" where
  "CastingMixin_to_python caster exception v =
     (case caster v of
        Inr x \<Rightarrow> Inr x
      | Inl e \<Rightarrow> if exception e then Inl (ValueProcessingError v) else Inl (Builtin e))"

definition PositiveIntegerValue_to_python ::
  "(string \<Rightarrow> pyexc + int) \<Rightarrow> (pyexc \<Rightarrow> bool) \<Rightarrow> string \<Rightarrow> error + pyval" where
  "PositiveIntegerValue_to_python caster exception v =
     (case CastingMixin_to_python caster exception v of
        Inl e \<Rightarrow> Inl e
      | Inr int_value \<Rightarrow>
          if int_value < 0 then Inl (ValueProcessingError v) else Inr (PInt int_value))"

text \<open>\<open>self.sequence_type(...)\<close>: \<open>list(v)\<close> or \<open>tuple(v)\<close>.\<close>

fun mk_seq :: "seq_type \<Rightarrow> pyval list \<Rightarrow> pyval" where
  "mk_seq SeqList xs = PList xs"
| "mk_seq SeqTuple xs = PTuple xs"

definition sequence_type :: "seq_type \<Rightarrow> pyval \<Rightarrow> error + pyval" where
  "sequence_type ty v =
     (case iter_of v of Inl e \<Rightarrow> Inl (Builtin e) | Inr xs \<Rightarrow> Inr (mk_seq ty xs))"

fun isinstance_seq :: "pyval \<Rightarrow> seq_type \<Rightarrow> bool" where
  "isinstance_seq (PList xs) SeqList = True"
| "isinstance_seq (PTuple xs) SeqTuple = True"
| "isinstance_seq _ _ = False"

text \<open>
  The loop of \<open>SequenceValue._convert\<close>. \<open>on_fail\<close> is what the handler of
  \<open>(TypeError, ValueError)\<close> raises; any other exception of the converter passes through.
\<close>

fun convert_loop :: "(pyval \<Rightarrow> pyexc + pyval) \<Rightarrow> error \<Rightarrow> pyval list \<Rightarrow> error + pyval list" where
  "convert_loop converter on_fail [] = Inr []"
| "convert_loop converter on_fail (x # xs) =
     (case converter x of
        Inl e \<Rightarrow> if e = TypeError \<or> e = ValueError then Inl on_fail else Inl (Builtin e)
      | Inr y \<Rightarrow>
          (case convert_loop converter on_fail xs of
             Inl e \<Rightarrow> Inl e
           | Inr ys \<Rightarrow> Inr (y # ys)))"

text \<open>
  \<open>raise ValueProcessingError(self, self.separator.join(sequence))\<close>: the join itself
  raises \<open>TypeError\<close> when an item of the sequence is not a string.
\<close>

definition convert_failure :: "string \<Rightarrow> pyval list \<Rightarrow> error" where
  "convert_failure separator items =
     (case str_join separator items of
        Inl e \<Rightarrow> Builtin e
      | Inr s \<Rightarrow> ValueProcessingError s)"

definition SequenceValue_convert ::
  "seq_type \<Rightarrow> string \<Rightarrow> (pyval \<Rightarrow> pyexc + pyval) \<Rightarrow> pyval \<Rightarrow> error + pyval" where
  "SequenceValue_convert ty separator converter sequence =
     (case iter_of sequence of
        Inl e \<Rightarrow> Inl (Builtin e)
      | Inr xs \<Rightarrow>
          (case convert_loop converter (convert_failure separator xs) xs of
             Inl e \<Rightarrow> Inl e
           | Inr ys \<Rightarrow> Inr (mk_seq ty ys)))"

text \<open>A list comprehension over calls that may raise: the first exception wins.\<close>

fun map_result :: "('a \<Rightarrow> error + 'b) \<Rightarrow> 'a list \<Rightarrow> error + 'b list" where
  "map_result f [] = Inr []"
| "map_result f (x # xs) =
     (case f x of
        Inl e \<Rightarrow> Inl e
      | Inr y \<Rightarrow> (case map_result f xs of Inl e \<Rightarrow> Inl e | Inr ys \<Rightarrow> Inr (y # ys)))"

text \<open>
  \<open>SingleNestedSequenceValue._convert\<close>. Both callers hand it an instance of the sequence
  type (\<open>self.sequence_type(...)\<close>); \<open>items\<close> is the list of its members.
\<close>

definition SingleNestedSequenceValue_convert ::
  "seq_type \<Rightarrow> string \<Rightarrow> (pyval \<Rightarrow> pyexc + pyval) \<Rightarrow> pyval list \<Rightarrow> error + pyval" where
  "SingleNestedSequenceValue_convert ty separator converter items =
     (if items \<noteq> [] \<and> isinstance_seq (hd items) ty then
        (case map_result (SequenceValue_convert ty separator converter) items of
           Inl e \<Rightarrow> Inl e
         | Inr converted_sequences \<Rightarrow> Inr (mk_seq ty converted_sequences))
      else
        (case SequenceValue_convert ty separator converter (mk_seq ty items) of
           Inl e \<Rightarrow> Inl e
         | Inr v \<Rightarrow> sequence_type ty v))"

text \<open>
  The tokens of a raw string: \<open>[v.strip() for v in value.strip().split(sep)]\<close> without the
  empty ones (\<open>filter(None, ...)\<close>).
\<close>

definition tokens :: "string \<Rightarrow> string \<Rightarrow> error + string list" where
  "tokens sep v =
     (case str_split sep (str_strip v) of
        Inl e \<Rightarrow> Inl (Builtin e)
      | Inr split_value \<Rightarrow> Inr (filter (\<lambda>s. s \<noteq> []) (map str_strip split_value)))"

text \<open>
  \<open>SequenceValue.to_python\<close>. \<open>convert\<close> is \<open>self._convert\<close> when \<open>self.converter\<close> is not
  \<open>None\<close>: the method of \<open>SequenceValue\<close> or the one of \<open>SingleNestedSequenceValue\<close>,
  whichever class the instance has. It is handed the members of the sequence built from
  the tokens.
\<close>

definition SequenceValue_to_python ::
  "seq_type \<Rightarrow> string \<Rightarrow> (pyval list \<Rightarrow> error + pyval) option \<Rightarrow> string \<Rightarrow> error + pyval" where
  "SequenceValue_to_python ty separator convert v =
     (case tokens separator v of
        Inl e \<Rightarrow> Inl e
      | Inr ts \<Rightarrow>
          (case convert of
             None \<Rightarrow> sequence_type ty (mk_seq ty (map PStr ts))
           | Some cv \<Rightarrow>
               (case cv (map PStr ts) of
                  Inl e \<Rightarrow> Inl e
                | Inr value_list \<Rightarrow> sequence_type ty value_list)))"

definition SingleNestedSequenceValue_to_python ::
  "seq_type \<Rightarrow> string \<Rightarrow> string \<Rightarrow> (pyval \<Rightarrow> pyexc + pyval) option \<Rightarrow> string \<Rightarrow> error + pyval" where
  "SingleNestedSequenceValue_to_python ty separator seq_separator converter v =
     (case tokens seq_separator v of
        Inl e \<Rightarrow> Inl e
      | Inr filtered \<Rightarrow>
          (case map_result
                  (SequenceValue_to_python ty separator
                     (map_option (SingleNestedSequenceValue_convert ty separator) converter))
                  filtered of
             Inl e \<Rightarrow> Inl e
           | Inr sequence \<Rightarrow> sequence_type ty (PList sequence)))"

text \<open>
  \<open>set(...)\<close> of a list. Members have to be hashable; \<open>True\<close> and \<open>1\<close> (\<open>False\<close> and \<open>0\<close>) are
  the same member, and the first one met stays. The order of the list that stands for
  the set has no meaning.
\<close>

fun hashable :: "pyval \<Rightarrow> bool" where
  "hashable (PList xs) = False"
| "hashable (PSet xs) = False"
| "hashable (PDict kvs) = False"
| "hashable (PTuple xs) = list_all hashable xs"
| "hashable _ = True"

fun hash_key :: "pyval \<Rightarrow> pyval" where
  "hash_key (PBool b) = PInt (if b then 1 else 0)"
| "hash_key (PTuple xs) = PTuple (map hash_key xs)"
| "hash_key v = v"

definition set_of :: "pyval \<Rightarrow> error + pyval" where
  "set_of v =
     (case iter_of v of
        Inl e \<Rightarrow> Inl (Builtin e)
      | Inr xs \<Rightarrow>
          if list_all hashable xs
          then Inr (PSet (rev (fold (\<lambda>x acc. if hash_key x \<in> hash_key ` set acc then acc else x # acc) xs [])))
          else Inl (Builtin TypeError))"

text \<open>
  \<open>DictValue.to_python\<close>. \<open>ev\<close> is \<open>ast.literal_eval\<close>. Only \<open>ValueError\<close> is caught: any other
  exception of \<open>ast.literal_eval\<close> (\<open>SyntaxError\<close> among them) leaves \<open>to_python\<close> as it is.
\<close>

fun is_dict :: "pyval \<Rightarrow> bool" where
  "is_dict (PDict kvs) = True"
| "is_dict _ = False"

definition DictValue_to_python :: "(string \<Rightarrow> pyexc + pyval) \<Rightarrow> string \<Rightarrow> error + pyval" where
  "DictValue_to_python ev v =
     (if v = [] then Inr (PDict [])
      else
        (case ev v of
           Inl e \<Rightarrow> if e = ValueError then Inl (ValueProcessingError v) else Inl (Builtin e)
         | Inr evaled_value \<Rightarrow>
             if \<not> is_dict evaled_value then Inl (ValueProcessingError v)
             else Inr evaled_value))"

definition ValidationMixin_to_python :: "(string \<Rightarrow> pyexc option) \<Rightarrow> string \<Rightarrow> error + pyval" where
  "ValidationMixin_to_python validator v =
     (case validator v of
        None \<Rightarrow> Inr (PStr v)
      | Some (ValidationError m) \<Rightarrow> Inl (ValueProcessingError v)
      | Some e \<Rightarrow> Inl (Builtin e))"

text \<open>
  \<open>self._convert\<close> as a bound method, when \<open>self.converter\<close> is not \<open>None\<close>. It is handed the
  members of an instance of the sequence type.
\<close>

fun bound_convert :: "value_class \<Rightarrow> (pyval list \<Rightarrow> error + pyval) option" where
  "bound_convert (SequenceValue ty sep conv) =
     map_option (\<lambda>c xs. SequenceValue_convert ty sep c (mk_seq ty xs)) conv"
| "bound_convert (SingleNestedSequenceValue ty sep seq_sep conv) =
     map_option (SingleNestedSequenceValue_convert ty sep) conv"
| "bound_convert (SetValue sep conv) =
     map_option (\<lambda>c xs. SequenceValue_convert SeqList sep c (PList xs)) conv"
| "bound_convert _ = None"

text \<open>\<open>self.to_python(value)\<close>, by the class of the instance.\<close>

fun to_python :: "process \<Rightarrow> value_class \<Rightarrow> string \<Rightarrow> error + pyval" where
  "to_python p Value v = Inr (PStr v)"
| "to_python p BooleanValue v = BooleanValue_to_python v"
| "to_python p (CastingValue caster exception) v = CastingMixin_to_python caster exception v"
| "to_python p (PositiveIntegerValue caster exception) v =
     PositiveIntegerValue_to_python caster exception v"
| "to_python p (SequenceValue ty sep conv) v =
     SequenceValue_to_python ty sep (bound_convert (SequenceValue ty sep conv)) v"
| "to_python p (SingleNestedSequenceValue ty sep seq_sep conv) v =
     SingleNestedSequenceValue_to_python ty sep seq_sep conv v"
| "to_python p (SetValue sep conv) v =
     (case SequenceValue_to_python SeqList sep (bound_convert (SetValue sep conv)) v of
        Inl e \<Rightarrow> Inl e
      | Inr l \<Rightarrow> set_of l)"
| "to_python p DictValue v = DictValue_to_python (literal_eval p) v"
| "to_python p (ValidationValue validator) v = ValidationMixin_to_python validator v"
| "to_python p (PathValue check_exists) v = Inr (PStr v)"
| "to_python p SecretValue v = Inr (PStr v)"
| "to_python p (EmailURLValue caster exception) v = CastingMixin_to_python caster exception v"
| "to_python p (DictBackendValue alias caster exception) v =
     (case CastingMixin_to_python caster exception v of
        Inl e \<Rightarrow> Inl e
      | Inr x \<Rightarrow> Inr (PDict [(PStr alias, x)]))"

subsection \<open>\<open>setup\<close>\<close>

text \<open>
  A method that changes the instance returns the instance and the process as they are
  when it returns or raises: an assignment made before a \<open>raise\<close> stays.
\<close>

type_synonym 'a outcome = "(error + 'a) \<times> descriptor \<times> process"

definition Value_setup :: "descriptor \<Rightarrow> string option \<Rightarrow> process \<Rightarrow> pyval outcome" where
  "Value_setup d name p =
     (let d1 = d\<lparr>destination_name := name\<rparr> in
      if environ d1 then
        (case full_environ_name d1 of
           Inl e \<Rightarrow> (Inl (Builtin e), d1, p)
         | Inr n \<Rightarrow>
             (let p1 = p\<lparr>lookups := lookups p + 1\<rparr> in
              case os_environ p n of
                Some raw \<Rightarrow>
                  (case to_python p (cls d1) raw of
                     Inl e \<Rightarrow> (Inl e, d1, p1)
                   | Inr v \<Rightarrow> (Inr v, d1\<lparr>cached_value := Some v\<rparr>, p1))
              | None \<Rightarrow>
                  if environ_required d1 then (Inl ValueRetrievalError, d1, p1)
                  else (Inr (default_value d1), d1\<lparr>cached_value := Some (default_value d1)\<rparr>, p1)))
      else (Inr (default_value d1), d1\<lparr>cached_value := Some (default_value d1)\<rparr>, p))"

text \<open>\<open>os.path.expanduser\<close> of a value that is not a string raises \<open>TypeError\<close>.\<close>

definition PathValue_setup :: "bool \<Rightarrow> descriptor \<Rightarrow> string option \<Rightarrow> process \<Rightarrow> pyval outcome" where
  "PathValue_setup check_exists d name p =
     (case Value_setup d name p of
        (Inl e, d1, p1) \<Rightarrow> (Inl e, d1, p1)
      | (Inr v, d1, p1) \<Rightarrow>
          (case v of
             PStr s \<Rightarrow>
               (let s1 = expanduser p1 s in
                if check_exists \<and> \<not> path_exists p1 s1 then (Inl (ValueProcessingError s1), d1, p1)
                else (Inr (PStr (abspath p1 s1)), d1, p1))
           | _ \<Rightarrow> (Inl (Builtin TypeError), d1, p1)))"

definition SecretValue_setup :: "descriptor \<Rightarrow> string option \<Rightarrow> process \<Rightarrow> pyval outcome" where
  "SecretValue_setup d name p =
     (case Value_setup d name p of
        (Inl e, d1, p1) \<Rightarrow> (Inl e, d1, p1)
      | (Inr v, d1, p1) \<Rightarrow>
          if \<not> truthy v then (Inl ValueRetrievalError, d1, p1) else (Inr v, d1, p1))"

text \<open>\<open>self.setup(name)\<close>, by the class of the instance.\<close>

definition self_setup :: "descriptor \<Rightarrow> string option \<Rightarrow> process \<Rightarrow> pyval outcome" where
  "self_setup d name p =
     (case cls d of
        PathValue check_exists \<Rightarrow> PathValue_setup check_exists d name p
      | SecretValue \<Rightarrow> SecretValue_setup d name p
      | _ \<Rightarrow> Value_setup d name p)"

subsection \<open>The property \<open>Value.value\<close>\<close>

definition value_get :: "descriptor \<Rightarrow> process \<Rightarrow> pyval outcome" where
  "value_get d p =
     (case (if cached_value d = None \<and> truthy_str (environ_name d)
            then self_setup d (environ_name d) p else (Inr PNone, d, p)) of
        (Inl e, d1, p1) \<Rightarrow> (Inl e, d1, p1)
      | (Inr _, d1, p1) \<Rightarrow>
          (Inr (case cached_value d1 of Some v \<Rightarrow> v | None \<Rightarrow> default_value d), d1, p1))"

subsection \<open>\<open>setup_value\<close>\<close>

text \<open>
  What an attribute of a schema or of a target namespace can hold: a plain value, an
  instance of \<open>Value\<close>, or a callable, which is either marked \<open>pristine\<close> or not and is
  modelled by what calling it gives.
\<close>

datatype attr =
    Plain pyval
  | Instance descriptor
  | Callable bool "error + attr"

type_synonym namespace = "string \<rightharpoonup> attr"

text \<open>
  The loop over \<open>actual_value.items()\<close>: \<open>setattr\<close> with a name that is not a string raises
  \<open>TypeError\<close>, after the attributes before it have been set.
\<close>

fun setattr_items :: "namespace \<Rightarrow> (pyval \<times> pyval) list \<Rightarrow> pyexc option \<times> namespace" where
  "setattr_items target [] = (None, target)"
| "setattr_items target ((PStr multiple_name, multiple_value) # kvs) =
     setattr_items (target(multiple_name \<mapsto> Plain multiple_value)) kvs"
| "setattr_items target ((_, multiple_value) # kvs) = (Some TypeError, target)"

definition setup_value ::
  "namespace \<Rightarrow> string \<Rightarrow> descriptor \<Rightarrow> process \<Rightarrow> (error + unit) \<times> namespace \<times> descriptor \<times> process" where
  "setup_value target name d p =
     (case self_setup d (Some name) p of
        (Inl e, d1, p1) \<Rightarrow> (Inl e, target, d1, p1)
      | (Inr actual_value, d1, p1) \<Rightarrow>
          (case value_get d1 p1 of
             (Inl e, d2, p2) \<Rightarrow> (Inl e, target, d2, p2)
           | (Inr v, d2, p2) \<Rightarrow>
               (let target1 = target(name \<mapsto> Plain v) in
                if multiple (cls d2) then
                  (case actual_value of
                     PDict kvs \<Rightarrow>
                       (case setattr_items target1 kvs of
                          (Some e, target2) \<Rightarrow> (Inl (Builtin e), target2, d2, p2)
                        | (None, target2) \<Rightarrow> (Inr (), target2, d2, p2))
                   | _ \<Rightarrow> (Inl (Builtin AttributeError), target1, d2, p2))
                else (Inr (), target1, d2, p2))))"

section \<open>Construction\<close>

text \<open>
  The keyword arguments of \<open>Value.__init__\<close>, with their defaults in \<open>no_kwargs\<close>. The
  static default is a plain value here (the source also takes another \<open>Value\<close> for it).
  \<open>kw_late_binding\<close> is \<open>None\<close> when the call does not pass \<open>late_binding\<close>.
\<close>

record kwargs =
  kw_default :: pyval
  kw_environ :: bool
  kw_environ_name :: "string option"
  kw_environ_prefix :: "string option"
  kw_environ_required :: bool
  kw_late_binding :: "bool option"

definition no_kwargs :: kwargs where
  "no_kwargs =
     \<lparr>kw_default = PNone, kw_environ = True, kw_environ_name = None,
      kw_environ_prefix = Some ''DJANGO'', kw_environ_required = False,
      kw_late_binding = None\<rparr>"

text \<open>One trailing underscore of the prefix is dropped (\<open>environ_prefix[:-1]\<close>).\<close>

definition strip_prefix :: "string option \<Rightarrow> string option" where
  "strip_prefix prefix =
     (case prefix of
        None \<Rightarrow> None
      | Some s \<Rightarrow> if s \<noteq> [] \<and> last s = CHR ''_'' then Some (butlast s) else Some s)"

definition Value_init :: "value_class \<Rightarrow> kwargs \<Rightarrow> descriptor" where
  "Value_init c kw =
     \<lparr>cls = c, default_value = kw_default kw, environ = kw_environ kw,
      environ_prefix = strip_prefix (kw_environ_prefix kw),
      environ_name = kw_environ_name kw,
      environ_required = kw_environ_required kw,
      destination_name = None, cached_value = None\<rparr>"


text \<open>
  \<open>SequenceValue.__init__\<close>, which the nested sequences and \<open>SetValue\<close> run first. The class
  \<open>c\<close> gives the sequence type and, through \<open>bound_convert\<close>, the \<open>_convert\<close> that
  \<open>self._convert(self.default)\<close> reaches.
\<close>

fun seq_type_of :: "value_class \<Rightarrow> seq_type" where
  "seq_type_of (SequenceValue ty sep conv) = ty"
| "seq_type_of (SingleNestedSequenceValue ty sep seq_sep conv) = ty"
| "seq_type_of _ = SeqList"

definition SequenceValue_init :: "value_class \<Rightarrow> kwargs \<Rightarrow> error + descriptor" where
  "SequenceValue_init c kw =
     (let d = Value_init c kw in
      case (if default_value d = PNone then Inr [] else iter_of (default_value d)) of
        Inl e \<Rightarrow> Inl (Builtin e)
      | Inr xs \<Rightarrow>
          (case bound_convert c of
             None \<Rightarrow> Inr (d\<lparr>default_value := mk_seq (seq_type_of c) xs\<rparr>)
           | Some cv \<Rightarrow>
               (case cv xs of
                  Inl e \<Rightarrow> Inl e
                | Inr v \<Rightarrow> Inr (d\<lparr>default_value := v\<rparr>))))"

definition SetValue_init :: "string \<Rightarrow> (pyval \<Rightarrow> pyexc + pyval) option \<Rightarrow> kwargs \<Rightarrow> error + descriptor" where
  "SetValue_init sep conv kw =
     (case SequenceValue_init (SetValue sep conv) kw of
        Inl e \<Rightarrow> Inl e
      | Inr d \<Rightarrow>
          if default_value d = PNone then Inr (d\<lparr>default_value := PSet []\<rparr>)
          else
            (case set_of (default_value d) of
               Inl e \<Rightarrow> Inl e
             | Inr s \<Rightarrow> Inr (d\<lparr>default_value := s\<rparr>)))"

text \<open>\<open>SecretValue.__init__\<close> overrides \<open>environ\<close> and \<open>environ_required\<close> before anything else.\<close>

definition SecretValue_init :: "kwargs \<Rightarrow> error + descriptor" where
  "SecretValue_init kw =
     (let d = Value_init SecretValue (kw\<lparr>kw_environ := True, kw_environ_required := True\<rparr>) in
      if default_value d \<noteq> PNone then Inl ImproperlyConfigured else Inr d)"

text \<open>
  Calling the class: \<open>Value.__new__\<close>, then \<open>__init__\<close> once more when \<open>__new__\<close> gave an
  instance of the class. \<open>init\<close> is the \<open>__init__\<close> of the class, \<open>late\<close> its attribute
  \<open>late_binding\<close>. The call gives a descriptor, or, when \<open>__new__\<close> resolved it on the
  spot, the resolved value in its place.
\<close>

datatype constructed = Descriptor descriptor | Resolved pyval

definition construct ::
  "(kwargs \<Rightarrow> error + descriptor) \<Rightarrow> bool \<Rightarrow> kwargs \<Rightarrow> process \<Rightarrow> (error + constructed) \<times> process" where
  "construct init late kw p =
     (if \<not> (case kw_late_binding kw of Some b \<Rightarrow> b | None \<Rightarrow> late) then
        (case init kw of
           Inl e \<Rightarrow> (Inl e, p)
         | Inr d \<Rightarrow>
             if (environ d \<and> truthy_str (environ_name d)) \<or> (\<not> environ d \<and> truthy (default_value d))
             then
               (case self_setup d (environ_name d) p of
                  (Inl e, d1, p1) \<Rightarrow> (Inl e, p1)
                | (Inr v, d1, p1) \<Rightarrow> (Inr (Resolved v), p1))
             else
               (case init kw of
                  Inl e \<Rightarrow> (Inl e, p)
                | Inr d2 \<Rightarrow> (Inr (Descriptor d2), p)))
      else
        (case init kw of
           Inl e \<Rightarrow> (Inl e, p)
         | Inr d \<Rightarrow> (Inr (Descriptor d), p)))"

section \<open>The loader of \<open>importer.py\<close>\<close>

text \<open>
  The state the loader works on: the process and the namespace of the settings module.
  An action returns the state as it is when it returns or raises.
\<close>

record world =
  proc :: process
  module_ns :: namespace

type_synonym 'a action = "world \<Rightarrow> (error + 'a) \<times> world"

text \<open>
  The configuration class found in the module: its three hooks and its instantiation,
  all of them code of the user.
\<close>

record 'obj configuration =
  pre_setup :: "unit action"
  cls_setup :: "unit action"
  instantiate :: "'obj action"
  post_setup :: "unit action"

text \<open>
  Modelled from the spec: \<open>reraise\<close> of \<open>utils.py\<close>, which is not among the sources. The
  specification has the exception caught, annotated with the qualified name of the schema
  and re-raised as a \<open>ConfigurationError\<close> chained to the original cause. \<open>prefix\<close> is the
  annotation the caller passes.
\<close>

definition reraise :: "error \<Rightarrow> string \<Rightarrow> error" where
  "reraise err prefix = ConfigurationError prefix err"

definition apostrophe :: string where
  "apostrophe = [CHR 0x27]"

text \<open>The two messages of \<open>exec_module\<close>, as its f-strings build them.\<close>

definition find_failure_message :: "string \<Rightarrow> string \<Rightarrow> string" where
  "find_failure_message class_name package =
     ''Couldn'' @ apostrophe @ ''t find configuration '' @ apostrophe @ class_name @ apostrophe
       @ '' in module '' @ apostrophe @ package @ apostrophe"

definition setup_failure_message :: "string \<Rightarrow> string" where
  "setup_failure_message path =
     ''Couldn'' @ apostrophe @ ''t setup configuration '' @ apostrophe @ path @ apostrophe"

text \<open>\<open>cls_path = f'{mod.__name__}.{class_name}'\<close>\<close>

definition cls_path :: "string \<Rightarrow> string \<Rightarrow> string" where
  "cls_path mod_name class_name = mod_name @ ''.'' @ class_name"

text \<open>\<open>setattr(mod, name, value)\<close>\<close>

definition setattr_mod :: "string \<Rightarrow> attr \<Rightarrow> world \<Rightarrow> world" where
  "setattr_mod name v w = w\<lparr>module_ns := (module_ns w)(name \<mapsto> v)\<rparr>"

text \<open>
  The loop over the uppercase attributes. A callable that is not pristine is called; when
  the call gives a \<open>Value\<close>, \<open>setup_value\<close> resolves it into the module.
\<close>

fun inject_attributes :: "(string \<times> attr) list \<Rightarrow> unit action" where
  "inject_attributes [] w = (Inr (), w)"
| "inject_attributes ((name, Callable pristine result) # attributes) w =
     (if \<not> pristine then
        (case result of
           Inl e \<Rightarrow> (Inl e, w)
         | Inr (Instance d) \<Rightarrow>
             (case setup_value (module_ns w) name d (proc w) of
                (Inl e, ns1, d1, p1) \<Rightarrow> (Inl e, w\<lparr>proc := p1, module_ns := ns1\<rparr>)
              | (Inr u, ns1, d1, p1) \<Rightarrow>
                  inject_attributes attributes (w\<lparr>proc := p1, module_ns := ns1\<rparr>))
         | Inr v \<Rightarrow> inject_attributes attributes (setattr_mod name v w))
      else inject_attributes attributes (setattr_mod name (Callable pristine result) w))"
| "inject_attributes ((name, v) # attributes) w =
     inject_attributes attributes (setattr_mod name v w)"

text \<open>
  The body of the \<open>try\<close> statement of \<open>exec_module\<close>. \<open>uppercase_attributes\<close> is the function
  of \<open>utils.py\<close>, a parameter here.
\<close>

definition injection ::
  "('obj \<Rightarrow> (string \<times> attr) list action) \<Rightarrow> string \<Rightarrow> string \<Rightarrow> 'obj configuration \<Rightarrow> unit action" where
  "injection uppercase_attributes mod_name class_name c w =
     (case pre_setup c w of
        (Inl e, w1) \<Rightarrow> (Inl e, w1)
      | (Inr _, w1) \<Rightarrow>
     (case cls_setup c w1 of
        (Inl e, w2) \<Rightarrow> (Inl e, w2)
      | (Inr _, w2) \<Rightarrow>
     (case instantiate c w2 of
        (Inl e, w3) \<Rightarrow> (Inl e, w3)
      | (Inr obj, w3) \<Rightarrow>
     (case uppercase_attributes obj w3 of
        (Inl e, w4) \<Rightarrow> (Inl e, w4)
      | (Inr attributes, w4) \<Rightarrow>
     (case inject_attributes attributes w4 of
        (Inl e, w5) \<Rightarrow> (Inl e, w5)
      | (Inr _, w5) \<Rightarrow>
          post_setup c
            (setattr_mod ''CONFIGURATION'' (Plain (PStr (cls_path mod_name class_name))) w5))))))"

text \<open>
  \<open>ConfigurationLoader.exec_module\<close>. \<open>super_exec\<close> is \<open>super().exec_module(module)\<close>;
  \<open>found\<close> is what \<open>getattr(mod, class_name)\<close> finds, \<open>None\<close> when it raises
  \<open>AttributeError\<close>; \<open>package\<close> is \<open>mod.__package__\<close>. The handler is \<open>except Exception\<close>:
  the type \<open>error\<close> stands for the exceptions that derive from \<open>Exception\<close>, and
  \<open>KeyboardInterrupt\<close> or \<open>SystemExit\<close>, which do not, are not modelled.
\<close>

definition exec_module ::
  "unit action \<Rightarrow> ('obj \<Rightarrow> (string \<times> attr) list action) \<Rightarrow> string \<Rightarrow> string \<Rightarrow> string \<Rightarrow>
   'obj configuration option \<Rightarrow> unit action" where
  "exec_module super_exec uppercase_attributes mod_name package class_name found w =
     (case super_exec w of
        (Inl e, w0) \<Rightarrow> (Inl e, w0)
      | (Inr _, w0) \<Rightarrow>
          (case found of
             None \<Rightarrow>
               (Inl (reraise (Builtin AttributeError) (find_failure_message class_name package)), w0)
           | Some c \<Rightarrow>
               (case injection uppercase_attributes mod_name class_name c w0 of
                  (Inl err, w1) \<Rightarrow>
                    (Inl (reraise err (setup_failure_message (cls_path mod_name class_name))), w1)
                | (Inr u, w1) \<Rightarrow> (Inr u, w1))))"

section \<open>The kinds of failure of the specification\<close>

text \<open>
  Modelled from the spec: \<open>errors.py\<close> is not among the sources. The specification has
  three kinds of failure. \<open>ValueRetrievalError\<close> is its RetrievalError and
  \<open>ValueProcessingError\<close> its ProcessingError; its ConfigurationError is a structural
  problem found at construction, which the code raises as Django's
  \<open>ImproperlyConfigured\<close>, or what \<open>reraise\<close> raises. An exception of the standard library
  that passes through is none of the three.
\<close>

datatype failure_kind = Retrieval | Processing | Configuration | Foreign

fun kind_of :: "error \<Rightarrow> failure_kind" where
  "kind_of ValueRetrievalError = Retrieval"
| "kind_of (ValueProcessingError v) = Processing"
| "kind_of ImproperlyConfigured = Configuration"
| "kind_of (ConfigurationError msg cause) = Configuration"
| "kind_of (Builtin e) = Foreign"

section \<open>What the specification says, in its own words\<close>

text \<open>
  The specification's reading of the boolean table: a raw string matches a word when,
  with whitespace taken off both ends, what is left equals the word up to the case of
  its letters.
\<close>

definition trimmed_to :: "string \<Rightarrow> string \<Rightarrow> bool" where
  "trimmed_to raw m =
     (\<exists>l r. raw = l @ m @ r \<and> list_all isspace l \<and> list_all isspace r
        \<and> (m = [] \<or> (\<not> isspace (hd m) \<and> \<not> isspace (last m))))"

definition ci_matches :: "string \<Rightarrow> string \<Rightarrow> bool" where
  "ci_matches raw w = (\<exists>m. trimmed_to raw m \<and> str_lower m = str_lower w)"

text \<open>
  The specification's full name of the environment variable: the prefix, an underscore
  and the explicit or derived name, all of it uppercased, without the prefix and the
  underscore when the prefix is empty.
\<close>

definition spec_full_environ_name :: "string option \<Rightarrow> string option \<Rightarrow> string \<Rightarrow> string" where
  "spec_full_environ_name prefix explicit destination =
     str_upper
       ((case prefix of None \<Rightarrow> [] | Some pre \<Rightarrow> if pre = [] then [] else pre @ ''_'')
        @ (case explicit of None \<Rightarrow> str_upper destination
           | Some n \<Rightarrow> if n = [] then str_upper destination else n))"

section \<open>A process to run the model in\<close>

text \<open>
  \<open>example_literal_eval\<close> agrees with \<open>ast.literal_eval\<close> on the strings listed and on the
  empty string; \<open>example_process\<close> has the home directory \<open>/home/app\<close>, the working
  directory \<open>/srv/app\<close> and two paths that exist. Its \<open>expanduser\<close> and \<open>abspath\<close> are those
  of \<open>os.path\<close> on the paths used below (no other user, no \<open>.\<close> or \<open>..\<close> to normalise).
\<close>

definition example_literal_eval :: "string \<Rightarrow> pyexc + pyval" where
  "example_literal_eval s =
     (if s = ''{}'' then Inr (PDict [])
      else if s = ''{1: 2}'' then Inr (PDict [(PInt 1, PInt 2)])
      else if s = ''[1]'' then Inr (PList [PInt 1])
      else if s = ''spam'' then Inl ValueError
      else Inl SyntaxError)"

definition example_process :: process where
  "example_process =
     \<lparr>os_environ = map_of
        [(''DJANGO_DEBUG'', '' YeS ''),
         (''DJANGO_TOKEN'', ''s3cr3t''),
         (''DJANGO_EMPTY'', ''''),
         (''DJANGO_HOSTS'', ''a, b ,c''),
         (''DJANGO_MEDIA'', ''~/media''),
         (''DJANGO_LIMITS'', ''{1: 2}'')],
      lookups = 0,
      expanduser = (\<lambda>s. if s = ''~'' \<or> take 2 s = ''~/'' then ''/home/app'' @ drop 1 s else s),
      path_exists = (\<lambda>s. s = ''/home/app/media'' \<or> s = ''/srv/app/data''),
      abspath = (\<lambda>s. if take 1 s = ''/'' then s else ''/srv/app/'' @ s),
      literal_eval = example_literal_eval\<rparr>"

section \<open>Classes with a \<open>setup\<close> of their own\<close>


section \<open>Example descriptors\<close>

text \<open>
  \<open>PathValue('data', check_exists=False)\<close>, \<open>BooleanValue(False)\<close>,
  \<open>Value(environ_required=True)\<close>, \<open>SecretValue()\<close> and \<open>Value('fallback')\<close>, as their
  \<open>__init__\<close> leaves them.
\<close>

definition example_path :: descriptor where
  "example_path = Value_init (PathValue False) (no_kwargs\<lparr>kw_default := PStr ''data''\<rparr>)"

definition example_boolean :: descriptor where
  "example_boolean = Value_init BooleanValue (no_kwargs\<lparr>kw_default := PBool False\<rparr>)"


definition example_secret :: descriptor where
  "example_secret = Value_init SecretValue (no_kwargs\<lparr>kw_environ_required := True\<rparr>)"

definition example_plain :: descriptor where
  "example_plain = Value_init Value (no_kwargs\<lparr>kw_default := PStr ''fallback''\<rparr>)"

text \<open>
  \<open>Value(environ_prefix='ACME_')\<close> declared as \<open>debug\<close> and \<open>Value(environ_name='db_url')\<close>
  declared as \<open>DATABASES\<close>, once \<open>setup\<close> has stored the destination name.
\<close>

definition example_prefixed :: descriptor where
  "example_prefixed =
     (Value_init Value (no_kwargs\<lparr>kw_environ_prefix := Some ''ACME_''\<rparr>))\<lparr>destination_name := Some ''debug''\<rparr>"

definition example_named :: descriptor where
  "example_named =
     (Value_init Value (no_kwargs\<lparr>kw_environ_name := Some ''db_url''\<rparr>))\<lparr>destination_name := Some ''DATABASES''\<rparr>"






text \<open>\<open>PathValue()\<close>, which checks that the path exists.\<close>

definition example_media :: descriptor where
  "example_media = Value_init (PathValue True) no_kwargs"

section \<open>Sequence classes\<close>









section \<open>An example configuration\<close>

text \<open>
  A settings module \<open>mysite.settings\<close> with a class \<open>Prod\<close> whose hooks do nothing and whose
  two uppercase attributes are methods that return \<open>BooleanValue(False)\<close> and
  \<open>SecretValue()\<close>.
\<close>

definition example_world :: world where
  "example_world = \<lparr>proc = example_process, module_ns = Map.empty\<rparr>"

definition ok_hook :: "unit action" where
  "ok_hook w = (Inr (), w)"

definition example_configuration :: "unit configuration" where
  "example_configuration =
     \<lparr>pre_setup = ok_hook, cls_setup = ok_hook, instantiate = ok_hook, post_setup = ok_hook\<rparr>"

definition example_attributes :: "unit \<Rightarrow> (string \<times> attr) list action" where
  "example_attributes obj w =
     (Inr [(''DEBUG'', Callable False (Inr (Instance example_boolean))),
           (''SECRET_KEY'', Callable False (Inr (Instance example_secret)))], w)"

section \<open>Lemmas about the string methods\<close>

lemma dropWhile_rev_split:
  "xs = rev (dropWhile P (rev xs)) @ rev (takeWhile P (rev xs))"
proof -
  have "rev (takeWhile P (rev xs) @ dropWhile P (rev xs)) = xs" by simp
  then show ?thesis by (simp only: rev_append)
qed

lemma str_strip_decomp:
  "s = takeWhile isspace s @ str_strip s @ rev (takeWhile isspace (rev (dropWhile isspace s)))"
proof -
  have "dropWhile isspace s = str_strip s @ rev (takeWhile isspace (rev (dropWhile isspace s)))"
    unfolding str_strip_def by (rule dropWhile_rev_split)
  moreover have "s = takeWhile isspace s @ dropWhile isspace s" by simp
  ultimately show ?thesis by metis
qed

lemma str_strip_unique:
  assumes "list_all isspace l" "list_all isspace r"
    and "m = [] \<or> (\<not> isspace (hd m) \<and> \<not> isspace (last m))"
  shows "str_strip (l @ m @ r) = m"
proof (cases "m = []")
  case True
  have "\<forall>x \<in> set (l @ r). isspace x"
    using assms(1,2) by (auto simp: list_all_iff)
  then have e: "dropWhile isspace (l @ r) = []"
    by (metis dropWhile_eq_Nil_conv)
  have "str_strip (l @ r) = []"
    unfolding str_strip_def e by simp
  then show ?thesis using True by simp
next
  case False
  then have h: "\<not> isspace (hd m)" and t: "\<not> isspace (last m)" using assms(3) by auto
  have 1: "dropWhile isspace (l @ m @ r) = m @ r"
    using assms(1) False h by (cases m) (auto simp: list_all_iff dropWhile_append2)
  have "\<And>x. x \<in> set (rev r) \<Longrightarrow> isspace x"
    using assms(2) by (auto simp: list_all_iff)
  then have "dropWhile isspace (rev r @ rev m) = dropWhile isspace (rev m)"
    by (rule dropWhile_append2)
  also have "\<dots> = rev m"
    using False t by (cases m rule: rev_cases) auto
  finally have 2: "dropWhile isspace (rev r @ rev m) = rev m" .
  show ?thesis by (simp add: str_strip_def 1 2)
qed

lemma last_dropWhile_nonempty:
  "dropWhile P xs \<noteq> [] \<Longrightarrow> last (dropWhile P xs) = last xs"
  by (induction xs) (auto split: if_splits)

lemma str_strip_ends:
  assumes "str_strip s \<noteq> []"
  shows "\<not> isspace (hd (str_strip s)) \<and> \<not> isspace (last (str_strip s))"
proof -
  let ?rest = "dropWhile isspace s"
  let ?m = "dropWhile isspace (rev ?rest)"
  have m: "str_strip s = rev ?m" by (simp add: str_strip_def)
  then have ne: "?m \<noteq> []" using assms by simp
  then have "\<not> isspace (hd ?m)" by (rule hd_dropWhile)
  then have l: "\<not> isspace (last (str_strip s))" using ne by (simp add: m last_rev)
  have rne: "?rest \<noteq> []"
  proof
    assume a: "?rest = []"
    have "?m = []" unfolding a by simp
    with ne show False by blast
  qed
  then have "\<not> isspace (hd ?rest)" by (rule hd_dropWhile)
  moreover have "hd (str_strip s) = hd ?rest"
    using ne rne by (simp add: m hd_rev last_dropWhile_nonempty last_rev)
  ultimately show ?thesis using l by simp
qed

lemma trimmed_to_iff: "trimmed_to raw m \<longleftrightarrow> m = str_strip raw"
proof
  assume "trimmed_to raw m"
  then show "m = str_strip raw"
    unfolding trimmed_to_def using str_strip_unique by metis
next
  assume m: "m = str_strip raw"
  have "raw = takeWhile isspace raw @ m @ rev (takeWhile isspace (rev (dropWhile isspace raw)))"
    unfolding m by (rule str_strip_decomp)
  moreover have "list_all isspace (takeWhile isspace raw)"
    by (auto simp: list_all_iff dest: set_takeWhileD)
  moreover have "list_all isspace (rev (takeWhile isspace (rev (dropWhile isspace raw))))"
    by (auto simp: list_all_iff dest: set_takeWhileD)
  moreover have "m = [] \<or> (\<not> isspace (hd m) \<and> \<not> isspace (last m))"
    unfolding m using str_strip_ends by blast
  ultimately show "trimmed_to raw m" unfolding trimmed_to_def by blast
qed

lemma ci_matches_iff: "ci_matches raw w \<longleftrightarrow> str_lower (str_strip raw) = str_lower w"
  by (simp add: ci_matches_def trimmed_to_iff)

lemma str_lower_true_values: "w \<in> set true_values \<Longrightarrow> str_lower w = w"
  unfolding true_values_def by (auto; code_simp)

lemma str_lower_false_values: "w \<in> set false_values \<Longrightarrow> str_lower w = w"
  unfolding false_values_def by (auto; code_simp)

lemma true_false_disjoint: "set true_values \<inter> set false_values = {}"
  unfolding true_values_def false_values_def by simp

section \<open>Lemmas about \<open>setup\<close>\<close>

lemma Value_setup_destination:
  "destination_name (fst (snd (Value_setup d name p))) = name"
  by (auto simp: Value_setup_def Let_def split: if_splits sum.splits option.splits)

lemma self_setup_destination:
  "destination_name (fst (snd (self_setup d name p))) = name"
proof -
  have "destination_name (fst (snd (PathValue_setup ce d name p))) = name" for ce
    using Value_setup_destination [of d name p]
    by (auto simp: PathValue_setup_def Let_def split: prod.splits sum.splits pyval.splits)
  moreover have "destination_name (fst (snd (SecretValue_setup d name p))) = name"
    using Value_setup_destination [of d name p]
    by (auto simp: SecretValue_setup_def split: prod.splits sum.splits)
  ultimately show ?thesis
    using Value_setup_destination [of d name p]
    by (cases "cls d") (simp_all add: self_setup_def)
qed


lemma Value_setup_absent_required:
  "environ d \<Longrightarrow> full_environ_name (d\<lparr>destination_name := name\<rparr>) = Inr n \<Longrightarrow>
   os_environ p n = None \<Longrightarrow> environ_required d \<Longrightarrow>
   Value_setup d name p = (Inl ValueRetrievalError, d\<lparr>destination_name := name\<rparr>, p\<lparr>lookups := lookups p + 1\<rparr>)"
  by (simp add: Value_setup_def Let_def)


lemma Value_setup_no_environ:
  "\<not> environ d \<Longrightarrow>
   Value_setup d name p =
     (Inr (default_value d), d\<lparr>destination_name := name, cached_value := Some (default_value d)\<rparr>, p)"
  by (simp add: Value_setup_def Let_def)

lemma Value_setup_present:
  "environ d \<Longrightarrow> full_environ_name (d\<lparr>destination_name := name\<rparr>) = Inr n \<Longrightarrow>
   os_environ p n = Some raw \<Longrightarrow>
   Value_setup d name p =
     (case to_python p (cls d) raw of
        Inl e \<Rightarrow> (Inl e, d\<lparr>destination_name := name\<rparr>, p\<lparr>lookups := lookups p + 1\<rparr>)
      | Inr v \<Rightarrow> (Inr v, d\<lparr>destination_name := name, cached_value := Some v\<rparr>, p\<lparr>lookups := lookups p + 1\<rparr>))"
  by (simp add: Value_setup_def Let_def split: sum.splits)

section \<open>Lemmas about uppercasing\<close>

lemma upper_char_idem: "upper_char (upper_char c) = upper_char c"
  by (auto simp: upper_char_def Let_def)

lemma str_upper_idem: "str_upper (str_upper s) = str_upper s"
  by (simp add: str_upper_def upper_char_idem)

lemma str_upper_append: "str_upper (a @ b) = str_upper a @ str_upper b"
  by (simp add: str_upper_def)

lemma str_upper_underscore: "str_upper ''_'' = ''_''"
  by code_simp

section \<open>Lemmas about \<open>SecretValue\<close>\<close>

lemma SecretValue_init_fields:
  "SecretValue_init kw = Inr d \<Longrightarrow>
   cls d = SecretValue \<and> environ d \<and> environ_required d \<and> default_value d = PNone"
  by (auto simp: SecretValue_init_def Value_init_def Let_def split: if_splits)

section \<open>Lemmas about resolving twice\<close>


lemma Value_setup_frame:
  "Value_setup d name p = (r, d1, p1) \<Longrightarrow>
   (\<exists>cv. d1 = d\<lparr>destination_name := name, cached_value := cv\<rparr>)
   \<and> (\<exists>k. p1 = p\<lparr>lookups := k\<rparr> \<and> lookups p \<le> k \<and> k \<le> lookups p + 1)"
proof -
  have p: "p = p\<lparr>lookups := lookups p\<rparr>" by simp
  have d: "d\<lparr>destination_name := name\<rparr> = d\<lparr>destination_name := name, cached_value := cached_value d\<rparr>"
    by simp
  assume "Value_setup d name p = (r, d1, p1)"
  then show ?thesis
    apply (simp add: Value_setup_def Let_def split: if_splits sum.splits option.splits)
    using p d by (auto intro: exI [of _ "lookups p"] exI [of _ "cached_value d"])
qed



lemma Value_setup_success_cached:
  "Value_setup d name p = (Inr v, d1, p1) \<Longrightarrow> cached_value d1 = Some v"
  by (auto simp: Value_setup_def Let_def split: if_splits sum.splits option.splits)


lemma self_setup_success:
  assumes "self_setup d name p = (Inr a, d1, p1)"
  shows "\<exists>v. Value_setup d name p = (Inr v, d1, p1) \<and> cached_value d1 = Some v"
proof (cases "cls d")
  case (PathValue ce)
  then show ?thesis using assms
    by (auto simp: self_setup_def PathValue_setup_def Let_def dest: Value_setup_success_cached
        split: prod.splits sum.splits pyval.splits if_splits)
next
  case SecretValue
  then show ?thesis using assms
    by (auto simp: self_setup_def SecretValue_setup_def dest: Value_setup_success_cached
        split: prod.splits sum.splits if_splits)
qed (use assms in \<open>auto simp: self_setup_def dest: Value_setup_success_cached\<close>)


section \<open>Lemmas about \<open>setup_value\<close>\<close>

lemma setup_value_success:
  assumes "setup_value target name d p = (Inr u, target', d', p')"
  shows "\<exists>v a. Value_setup d (Some name) p = (Inr v, d', p')
           \<and> self_setup d (Some name) p = (Inr a, d', p')
           \<and> cached_value d' = Some v
           \<and> (\<not> multiple (cls d) \<longrightarrow> target' = target(name \<mapsto> Plain v))
           \<and> (multiple (cls d) \<longrightarrow>
                (\<exists>kvs. a = PDict kvs \<and> setattr_items (target(name \<mapsto> Plain v)) kvs = (None, target')))"
proof -
  obtain r d1 p1 where s: "self_setup d (Some name) p = (r, d1, p1)"
    by (cases "self_setup d (Some name) p") auto
  then obtain a where r: "r = Inr a"
    using assms by (cases r) (auto simp: setup_value_def)
  from self_setup_success [OF s [unfolded r]] obtain v
    where vs: "Value_setup d (Some name) p = (Inr v, d1, p1)" and c: "cached_value d1 = Some v"
    by blast
  have g: "value_get d1 p1 = (Inr v, d1, p1)"
    using c by (simp add: value_get_def)
  from Value_setup_frame [OF vs] have cls1: "cls d1 = cls d" by auto
  have d': "d' = d1" and p': "p' = p1"
    using assms s r g
    by (auto simp: setup_value_def Let_def split: if_splits pyval.splits prod.splits option.splits)
  have t1: "\<not> multiple (cls d) \<longrightarrow> target' = target(name \<mapsto> Plain v)"
    using assms s r g cls1 by (auto simp: setup_value_def Let_def)
  have t2: "multiple (cls d) \<longrightarrow>
                (\<exists>kvs. a = PDict kvs \<and> setattr_items (target(name \<mapsto> Plain v)) kvs = (None, target'))"
    using assms s r g cls1
    by (auto simp: setup_value_def Let_def split: pyval.splits prod.splits option.splits)
  show ?thesis
    using vs s r c t1 t2 d' p' by blast
qed

lemma PathValue_setup_success:
  assumes "cls d = PathValue ce" and "self_setup d name p = (Inr a, d1, p1)"
    and "Value_setup d name p = (Inr v, d1, p1)"
  shows "\<exists>s. v = PStr s \<and> a = PStr (abspath p (expanduser p s))"
proof -
  obtain k where "p1 = p\<lparr>lookups := k\<rparr>" using Value_setup_frame [OF assms(3)] by blast
  then show ?thesis
    using assms by (auto simp: self_setup_def PathValue_setup_def Let_def split: pyval.splits if_splits)
qed

section \<open>Lemmas about reading the value\<close>



section \<open>Lemmas about sequences\<close>

lemma iter_of_mk_seq [simp]: "iter_of (mk_seq ty xs) = Inr xs"
  by (cases ty) simp_all

lemma mk_seq_not_None [simp]: "mk_seq ty xs \<noteq> PNone"
  by (cases ty) simp_all

lemma sequence_type_mk_seq [simp]: "sequence_type ty (mk_seq ty xs) = Inr (mk_seq ty xs)"
  by (simp add: sequence_type_def)

lemma isinstance_mk_seq [simp]: "isinstance_seq (mk_seq ty xs) ty"
  by (cases ty) simp_all

lemma not_isinstance_PStr [simp]: "\<not> isinstance_seq (PStr s) ty"
  by (cases ty) simp_all
















section \<open>Lemmas about the loader\<close>

lemma injection_failure_iff:
  "fst (injection ua mn cn c w0) = Inl err \<longleftrightarrow>
     fst (pre_setup c w0) = Inl err
   \<or> (\<exists>w1. pre_setup c w0 = (Inr (), w1) \<and>
        (fst (cls_setup c w1) = Inl err
       \<or> (\<exists>w2. cls_setup c w1 = (Inr (), w2) \<and>
            (fst (instantiate c w2) = Inl err
           \<or> (\<exists>obj w3. instantiate c w2 = (Inr obj, w3) \<and>
                (fst (ua obj w3) = Inl err
               \<or> (\<exists>attributes w4. ua obj w3 = (Inr attributes, w4) \<and>
                    (fst (inject_attributes attributes w4) = Inl err
                   \<or> (\<exists>w5. inject_attributes attributes w4 = (Inr (), w5) \<and>
                        fst (post_setup c
                               (setattr_mod ''CONFIGURATION'' (Plain (PStr (cls_path mn cn))) w5))
                          = Inl err)))))))))"
  by (auto simp: injection_def split: prod.splits sum.splits)

lemma exec_module_reraises:
  "fst (super_exec w) = Inr () \<Longrightarrow> fst (injection ua mn cn c (snd (super_exec w))) = Inl err \<Longrightarrow>
   fst (exec_module super_exec ua mn pkg cn (Some c) w)
     = Inl (ConfigurationError (setup_failure_message (cls_path mn cn)) err)"
  by (auto simp: exec_module_def reraise_def split: prod.splits sum.splits)

lemma exec_module_passes:
  "fst (super_exec w) = Inr () \<Longrightarrow> fst (injection ua mn cn c (snd (super_exec w))) = Inr () \<Longrightarrow>
   exec_module super_exec ua mn pkg cn (Some c) w = injection ua mn cn c (snd (super_exec w))"
  by (auto simp: exec_module_def reraise_def split: prod.splits sum.splits)

lemma inject_attributes_descriptor_raises:
  "fst (setup_value (module_ns w) name d (proc w)) = Inl e \<Longrightarrow>
   fst (inject_attributes ((name, Callable False (Inr (Instance d))) # rest) w) = Inl e"
  by (auto split: prod.splits sum.splits)

lemma inject_attributes_callable_raises:
  "fst (inject_attributes ((name, Callable False (Inl e)) # rest) w) = Inl e"
  by simp

section \<open>Required and optional descriptors\<close>




section \<open>The boolean table\<close>

text \<open>
  C3. \<open>BooleanValue.to_python\<close> gives \<open>True\<close> for every raw string that, trimmed, matches one
  of \<open>yes\<close>, \<open>y\<close>, \<open>true\<close>, \<open>1\<close> whatever the case of its letters, \<open>False\<close> for every raw
  string that so matches one of \<open>no\<close>, \<open>n\<close>, \<open>false\<close>, \<open>0\<close> and the empty string, and
  raises \<open>ValueProcessingError\<close>, the processing error of the specification, for every
  other string.
\<close>

theorem BooleanValue_to_python_table:
  "((\<exists>w \<in> set true_values. ci_matches raw w) \<longrightarrow> BooleanValue_to_python raw = Inr (PBool True))
   \<and> ((\<exists>w \<in> set false_values. ci_matches raw w) \<longrightarrow> BooleanValue_to_python raw = Inr (PBool False))
   \<and> (\<not> (\<exists>w \<in> set true_values \<union> set false_values. ci_matches raw w)
        \<longrightarrow> BooleanValue_to_python raw = Inl (ValueProcessingError raw)
            \<and> kind_of (ValueProcessingError raw) = Processing)"
proof -
  have t: "(\<exists>w \<in> set true_values. ci_matches raw w) \<longleftrightarrow> str_lower (str_strip raw) \<in> set true_values"
    using str_lower_true_values by (auto simp: ci_matches_iff)
  have f: "(\<exists>w \<in> set false_values. ci_matches raw w) \<longleftrightarrow> str_lower (str_strip raw) \<in> set false_values"
    using str_lower_false_values by (auto simp: ci_matches_iff)
  show ?thesis
    using t f true_false_disjoint
    by (auto simp: BooleanValue_to_python_def Let_def)
qed

text \<open>
  The table of the specification: \<open>YES\<close> (here with blanks around it), \<open>0\<close>, the empty
  string, and \<open>maybe\<close>.
\<close>

theorem BooleanValue_to_python_table_witness:
  "ci_matches '' YES  '' ''yes'' \<and> BooleanValue_to_python '' YES  '' = Inr (PBool True)
   \<and> ci_matches ''0'' ''0'' \<and> BooleanValue_to_python ''0'' = Inr (PBool False)
   \<and> ci_matches '''' '''' \<and> BooleanValue_to_python '''' = Inr (PBool False)
   \<and> \<not> (\<exists>w \<in> set true_values \<union> set false_values. ci_matches ''maybe'' w)
   \<and> BooleanValue_to_python ''maybe'' = Inl (ValueProcessingError ''maybe'')"
proof -
  note table = BooleanValue_to_python_table
  have yes: "ci_matches '' YES  '' ''yes''"
    unfolding ci_matches_iff by code_simp
  have zero: "ci_matches ''0'' ''0''"
    unfolding ci_matches_iff by code_simp
  have empty: "ci_matches '''' ''''"
    unfolding ci_matches_iff by code_simp
  have maybe: "\<not> (\<exists>w \<in> set true_values \<union> set false_values. ci_matches ''maybe'' w)"
    unfolding ci_matches_iff by code_simp
  have in_true: "''yes'' \<in> set true_values"
    by (simp add: true_values_def)
  have in_false: "''0'' \<in> set false_values" "'''' \<in> set false_values"
    by (simp_all add: false_values_def)
  have 1: "BooleanValue_to_python '' YES  '' = Inr (PBool True)"
    by (rule table [THEN conjunct1, THEN mp]) (rule bexI [OF _ in_true], rule yes)
  have 2: "BooleanValue_to_python ''0'' = Inr (PBool False)"
    by (rule table [THEN conjunct2, THEN conjunct1, THEN mp]) (rule bexI [OF _ in_false(1)], rule zero)
  have 3: "BooleanValue_to_python '''' = Inr (PBool False)"
    by (rule table [THEN conjunct2, THEN conjunct1, THEN mp]) (rule bexI [OF _ in_false(2)], rule empty)
  have 4: "BooleanValue_to_python ''maybe'' = Inl (ValueProcessingError ''maybe'')"
    by (rule table [THEN conjunct2, THEN conjunct2, THEN mp, OF maybe, THEN conjunct1])
  show ?thesis
    by (intro conjI yes zero empty maybe 1 2 3 4)
qed

section \<open>The full name of the environment variable\<close>

text \<open>
  C5, as the specification states it, fails for an explicit name with lowercase letters:
  \<open>Value(environ_name='db_url')\<close> reads \<open>DJANGO_db_url\<close>, where the specification has
  \<open>DJANGO_DB_URL\<close>. Only the name derived from the destination name is uppercased.
\<close>

theorem full_environ_name_counterexample:
  "full_environ_name example_named = Inr ''DJANGO_db_url''
   \<and> spec_full_environ_name (environ_prefix example_named) (environ_name example_named) ''DATABASES''
       = ''DJANGO_DB_URL''
   \<and> full_environ_name example_named
       \<noteq> Inr (spec_full_environ_name (environ_prefix example_named) (environ_name example_named) ''DATABASES'')"
  by code_simp

text \<open>
  C5, amended. Once the destination name is set, the full name is the prefix as it is
  stored and an underscore, both left out when the prefix is empty or \<open>None\<close>, followed by
  the explicit name as it was given or, when there is none, by the uppercased
  destination name. Neither the prefix nor the explicit name is uppercased; when both
  are uppercase already, the full name is the one of the specification.
\<close>

theorem full_environ_name_formula:
  assumes "destination_name d = Some dest"
  shows "full_environ_name d =
           Inr ((if truthy_str (environ_prefix d) then the (environ_prefix d) @ ''_'' else [])
                @ (if truthy_str (environ_name d) then the (environ_name d) else str_upper dest))
         \<and> ((\<forall>pre. environ_prefix d = Some pre \<longrightarrow> str_upper pre = pre)
              \<and> (\<forall>n. environ_name d = Some n \<longrightarrow> str_upper n = n)
            \<longrightarrow> full_environ_name d
                  = Inr (spec_full_environ_name (environ_prefix d) (environ_name d) dest))"
proof
  show 1: "full_environ_name d =
           Inr ((if truthy_str (environ_prefix d) then the (environ_prefix d) @ ''_'' else [])
                @ (if truthy_str (environ_name d) then the (environ_name d) else str_upper dest))"
    using assms by (simp add: full_environ_name_def)
  show "(\<forall>pre. environ_prefix d = Some pre \<longrightarrow> str_upper pre = pre)
              \<and> (\<forall>n. environ_name d = Some n \<longrightarrow> str_upper n = n)
            \<longrightarrow> full_environ_name d
                  = Inr (spec_full_environ_name (environ_prefix d) (environ_name d) dest)"
    unfolding 1
    by (cases "environ_prefix d"; cases "environ_name d")
       (auto simp: spec_full_environ_name_def str_upper_append str_upper_idem str_upper_underscore)
qed

text \<open>
  \<open>Value(environ_prefix='ACME_')\<close> declared as \<open>debug\<close> reads \<open>ACME_DEBUG\<close>: one underscore of
  the prefix was dropped at construction, and the destination name is uppercased.
\<close>

theorem full_environ_name_formula_witness:
  "destination_name example_prefixed = Some ''debug''
   \<and> environ_prefix example_prefixed = Some ''ACME''
   \<and> str_upper ''ACME'' = ''ACME''
   \<and> environ_name example_prefixed = None
   \<and> full_environ_name example_prefixed = Inr ''ACME_DEBUG''
   \<and> full_environ_name example_prefixed
       = Inr (spec_full_environ_name (environ_prefix example_prefixed) (environ_name example_prefixed) ''debug'')"
proof -
  have dest: "destination_name example_prefixed = Some ''debug''"
    and pre: "environ_prefix example_prefixed = Some ''ACME''"
    and up: "str_upper ''ACME'' = ''ACME''"
    and nm: "environ_name example_prefixed = None"
    by code_simp+
  note formula = full_environ_name_formula [OF dest]
  have "full_environ_name example_prefixed = Inr (''ACME'' @ ''_'' @ str_upper ''debug'')"
    using formula [THEN conjunct1] by (simp add: pre nm)
  moreover have "str_upper ''debug'' = ''DEBUG''"
    by code_simp
  ultimately have 1: "full_environ_name example_prefixed = Inr ''ACME_DEBUG''"
    by simp
  have 2: "full_environ_name example_prefixed
       = Inr (spec_full_environ_name (environ_prefix example_prefixed) (environ_name example_prefixed) ''debug'')"
    by (rule formula [THEN conjunct2, THEN mp]) (simp add: pre nm up)
  show ?thesis
    by (intro conjI dest pre up nm 1 2)
qed

section \<open>The destination name\<close>

text \<open>
  C6, as the specification states it, fails: \<open>setup\<close> assigns \<open>destination_name\<close> each time
  it runs. \<open>Value('fallback')\<close> resolved as \<open>FIRST\<close> and then as \<open>SECOND\<close> has the
  destination name \<open>FIRST\<close> after the first resolution and \<open>SECOND\<close> after the second.
\<close>

theorem destination_name_counterexample:
  "destination_name (fst (snd (self_setup example_plain (Some ''FIRST'') example_process)))
     = Some ''FIRST''
   \<and> destination_name
        (fst (snd (self_setup
                     (fst (snd (self_setup example_plain (Some ''FIRST'') example_process)))
                     (Some ''SECOND'')
                     (snd (snd (self_setup example_plain (Some ''FIRST'') example_process))))))
     = Some ''SECOND''"
  by code_simp

text \<open>
  C6, amended. The destination name is \<open>None\<close> after construction. Every resolution, the
  first and any later one, sets it to the name that resolution is given, also when the
  resolution raises. Reading the value of a descriptor that holds a cached value, or of
  one that has neither a cached value nor an explicit environment name, leaves the
  descriptor as it is; reading the value of a descriptor that has no cached value but
  an explicit environment name resolves it under that name.
\<close>

theorem destination_name_assigned:
  "destination_name (Value_init c kw) = None
   \<and> destination_name (fst (snd (self_setup d name p))) = name
   \<and> (cached_value d \<noteq> None \<longrightarrow> fst (snd (value_get d p)) = d)
   \<and> (cached_value d = None \<and> \<not> truthy_str (environ_name d) \<longrightarrow> fst (snd (value_get d p)) = d)
   \<and> (cached_value d = None \<and> truthy_str (environ_name d) \<longrightarrow>
        destination_name (fst (snd (value_get d p))) = environ_name d)"
proof (intro conjI impI)
  show "destination_name (Value_init c kw) = None"
    by (simp add: Value_init_def)
next
  show "destination_name (fst (snd (self_setup d name p))) = name"
    by (rule self_setup_destination)
next
  assume "cached_value d \<noteq> None"
  then obtain v where "cached_value d = Some v"
    by auto
  then show "fst (snd (value_get d p)) = d"
    by (simp add: value_get_def)
next
  assume "cached_value d = None \<and> \<not> truthy_str (environ_name d)"
  then show "fst (snd (value_get d p)) = d"
    by (simp add: value_get_def)
next
  assume "cached_value d = None \<and> truthy_str (environ_name d)"
  then show "destination_name (fst (snd (value_get d p))) = environ_name d"
    using self_setup_destination [of d "environ_name d" p]
    by (auto simp: value_get_def split: prod.splits sum.splits)
qed

text \<open>
  \<open>Value('fallback')\<close> resolved as \<open>FIRST\<close> holds a cached value, and reading its value
  leaves it as it is; \<open>Value(environ_name='db_url')\<close>, not yet resolved, is resolved under
  \<open>db_url\<close> when its value is read.
\<close>

theorem destination_name_assigned_witness:
  "cached_value (fst (snd (self_setup example_plain (Some ''FIRST'') example_process))) \<noteq> None
   \<and> fst (snd (value_get (fst (snd (self_setup example_plain (Some ''FIRST'') example_process)))
                  example_process))
       = fst (snd (self_setup example_plain (Some ''FIRST'') example_process))
   \<and> cached_value example_named = None
   \<and> truthy_str (environ_name example_named)
   \<and> destination_name (fst (snd (value_get example_named example_process))) = Some ''db_url''"
proof -
  note assigned = destination_name_assigned
  have c: "cached_value (fst (snd (self_setup example_plain (Some ''FIRST'') example_process))) \<noteq> None"
    by code_simp
  have 1: "fst (snd (value_get (fst (snd (self_setup example_plain (Some ''FIRST'') example_process)))
                  example_process))
       = fst (snd (self_setup example_plain (Some ''FIRST'') example_process))"
    by (rule assigned [THEN conjunct2, THEN conjunct2, THEN conjunct1, THEN mp, OF c])
  have n: "cached_value example_named = None" and t: "truthy_str (environ_name example_named)"
    and e: "environ_name example_named = Some ''db_url''"
    by code_simp+
  have 2: "destination_name (fst (snd (value_get example_named example_process))) = Some ''db_url''"
    using assigned [THEN conjunct2, THEN conjunct2, THEN conjunct2, THEN conjunct2, THEN mp,
        OF conjI [OF n t], of example_process]
    by (simp only: e)
  show ?thesis
    by (intro conjI c 1 n t 2)
qed

section \<open>Secrets\<close>

text \<open>
  C7. Calling \<open>SecretValue\<close> with a static default that is not \<open>None\<close> raises
  \<open>ImproperlyConfigured\<close> from \<open>__init__\<close>, before anything is resolved and whether or not
  the call asks for late binding; this is the configuration error of the specification.
  Resolving a secret raises \<open>ValueRetrievalError\<close>, the retrieval error of the
  specification, when its environment variable is absent and when the variable holds the
  empty string.
\<close>

theorem SecretValue_rejects:
  "(kw_default kw \<noteq> PNone \<longrightarrow>
      construct SecretValue_init late kw p = (Inl ImproperlyConfigured, p)
      \<and> kind_of ImproperlyConfigured = Configuration)
   \<and> (SecretValue_init kw = Inr d \<and> full_environ_name (d\<lparr>destination_name := name\<rparr>) = Inr n
        \<and> (os_environ p n = None \<or> os_environ p n = Some []) \<longrightarrow>
      fst (self_setup d name p) = Inl ValueRetrievalError
      \<and> kind_of ValueRetrievalError = Retrieval)"
proof (intro conjI impI)
  assume "kw_default kw \<noteq> PNone"
  then show "construct SecretValue_init late kw p = (Inl ImproperlyConfigured, p)"
    by (auto simp: construct_def SecretValue_init_def Value_init_def Let_def split: option.splits)
next
  assume h: "SecretValue_init kw = Inr d \<and> full_environ_name (d\<lparr>destination_name := name\<rparr>) = Inr n
        \<and> (os_environ p n = None \<or> os_environ p n = Some [])"
  then have f: "cls d = SecretValue" "environ d" "environ_required d"
    using SecretValue_init_fields by blast+
  from h have n: "full_environ_name (d\<lparr>destination_name := name\<rparr>) = Inr n" by simp
  from h have "os_environ p n = None \<or> os_environ p n = Some []" by simp
  then show "fst (self_setup d name p) = Inl ValueRetrievalError"
  proof
    assume "os_environ p n = None"
    then show ?thesis
      using f n by (simp add: self_setup_def SecretValue_setup_def Value_setup_absent_required)
  next
    assume "os_environ p n = Some []"
    then show ?thesis
      using f n by (simp add: self_setup_def SecretValue_setup_def Value_setup_present)
  qed
qed simp_all

text \<open>
  \<open>SecretValue('hunter2')\<close> fails; \<open>SecretValue()\<close> resolved as \<open>MISSING\<close> (no such variable)
  and as \<open>EMPTY\<close> (the empty string) raises; resolved as \<open>TOKEN\<close> it returns the secret.
\<close>

theorem SecretValue_rejects_witness:
  "construct SecretValue_init False (no_kwargs\<lparr>kw_default := PStr ''hunter2''\<rparr>) example_process
     = (Inl ImproperlyConfigured, example_process)
   \<and> SecretValue_init no_kwargs = Inr example_secret
   \<and> os_environ example_process ''DJANGO_MISSING'' = None
   \<and> fst (self_setup example_secret (Some ''MISSING'') example_process) = Inl ValueRetrievalError
   \<and> os_environ example_process ''DJANGO_EMPTY'' = Some []
   \<and> fst (self_setup example_secret (Some ''EMPTY'') example_process) = Inl ValueRetrievalError
   \<and> fst (self_setup example_secret (Some ''TOKEN'') example_process) = Inr (PStr ''s3cr3t'')"
proof -
  note rejects = SecretValue_rejects
  have 1: "construct SecretValue_init False (no_kwargs\<lparr>kw_default := PStr ''hunter2''\<rparr>) example_process
     = (Inl ImproperlyConfigured, example_process)"
    by (rule rejects [THEN conjunct1, THEN mp, THEN conjunct1]) (simp add: no_kwargs_def)
  have i: "SecretValue_init no_kwargs = Inr example_secret"
    by (simp add: SecretValue_init_def example_secret_def Value_init_def no_kwargs_def Let_def)
  have m: "os_environ example_process ''DJANGO_MISSING'' = None"
    and e: "os_environ example_process ''DJANGO_EMPTY'' = Some []"
    and fm: "full_environ_name (example_secret\<lparr>destination_name := Some ''MISSING''\<rparr>) = Inr ''DJANGO_MISSING''"
    and fe: "full_environ_name (example_secret\<lparr>destination_name := Some ''EMPTY''\<rparr>) = Inr ''DJANGO_EMPTY''"
    and 4: "fst (self_setup example_secret (Some ''TOKEN'') example_process) = Inr (PStr ''s3cr3t'')"
    by code_simp+
  have 2: "fst (self_setup example_secret (Some ''MISSING'') example_process) = Inl ValueRetrievalError"
    by (rule rejects [where kw = no_kwargs and d = example_secret and n = "''DJANGO_MISSING''",
            THEN conjunct2, THEN mp, THEN conjunct1])
       (intro conjI i fm disjI1 m)
  have 3: "fst (self_setup example_secret (Some ''EMPTY'') example_process) = Inl ValueRetrievalError"
    by (rule rejects [where kw = no_kwargs and d = example_secret and n = "''DJANGO_EMPTY''",
            THEN conjunct2, THEN mp, THEN conjunct1])
       (intro conjI i fe disjI2 e)
  show ?thesis
    by (intro conjI 1 i m 2 e 3 4)
qed

section \<open>Resolving twice, reading twice\<close>




section \<open>What \<open>setup_value\<close> writes\<close>

text \<open>
  C10. When \<open>setup_value\<close> returns, the descriptor holds a cached value, the one that
  \<open>Value.setup\<close> computed and stored, and this is what \<open>setup_value\<close> has written under the
  name, whatever \<open>setup\<close> returned. For a descriptor that is not multiple this is the only
  attribute written; for a multiple one the items of the dict that \<open>setup\<close> returned are
  written after it, in their order. For a path the value written is the raw string, from
  the environment or the default, while \<open>setup\<close> returned its absolute, expanded form.
\<close>

theorem setup_value_writes_cached:
  assumes "fst (setup_value target name d p) = Inr ()"
  shows "\<exists>v. fst (Value_setup d (Some name) p) = Inr v
           \<and> cached_value (fst (snd (snd (setup_value target name d p)))) = Some v
           \<and> (\<not> multiple (cls d) \<longrightarrow>
                fst (snd (setup_value target name d p)) = target(name \<mapsto> Plain v))
           \<and> (multiple (cls d) \<longrightarrow>
                (\<exists>kvs. fst (self_setup d (Some name) p) = Inr (PDict kvs)
                   \<and> setattr_items (target(name \<mapsto> Plain v)) kvs
                       = (None, fst (snd (setup_value target name d p)))))
           \<and> (\<forall>ce. cls d = PathValue ce \<longrightarrow>
                (\<exists>s. v = PStr s
                   \<and> fst (self_setup d (Some name) p) = Inr (PStr (abspath p (expanduser p s)))))"
proof -
  obtain target' d' p' where sv: "setup_value target name d p = (Inr (), target', d', p')"
    using assms by (cases "setup_value target name d p") auto
  from setup_value_success [OF sv] obtain v a
    where vs: "Value_setup d (Some name) p = (Inr v, d', p')"
      and ss: "self_setup d (Some name) p = (Inr a, d', p')"
      and c: "cached_value d' = Some v"
      and t1: "\<not> multiple (cls d) \<longrightarrow> target' = target(name \<mapsto> Plain v)"
      and t2: "multiple (cls d) \<longrightarrow>
                (\<exists>kvs. a = PDict kvs \<and> setattr_items (target(name \<mapsto> Plain v)) kvs = (None, target'))"
    by blast
  have path: "\<forall>ce. cls d = PathValue ce \<longrightarrow>
                (\<exists>s. v = PStr s
                   \<and> fst (self_setup d (Some name) p) = Inr (PStr (abspath p (expanduser p s))))"
    using PathValue_setup_success [OF _ ss vs] ss by auto
  show ?thesis
    using vs c t1 t2 path ss sv by (intro exI [of _ v]) simp
qed

text \<open>
  \<open>PathValue('data', check_exists=False)\<close> injected as \<open>DATA_DIR\<close>, with no such variable:
  the namespace gets the default \<open>data\<close>, while \<open>setup\<close> returned \<open>/srv/app/data\<close>.
  \<open>PathValue()\<close> injected as \<open>MEDIA\<close>, with \<open>DJANGO_MEDIA\<close> set to \<open>~/media\<close>: the namespace gets
  \<open>~/media\<close>, while \<open>setup\<close> returned \<open>/home/app/media\<close>.
\<close>

theorem setup_value_writes_cached_witness:
  "fst (setup_value Map.empty ''DATA_DIR'' example_path example_process) = Inr ()
   \<and> fst (snd (setup_value Map.empty ''DATA_DIR'' example_path example_process))
       = [''DATA_DIR'' \<mapsto> Plain (PStr ''data'')]
   \<and> fst (self_setup example_path (Some ''DATA_DIR'') example_process) = Inr (PStr ''/srv/app/data'')
   \<and> fst (setup_value Map.empty ''MEDIA'' example_media example_process) = Inr ()
   \<and> fst (snd (setup_value Map.empty ''MEDIA'' example_media example_process))
       = [''MEDIA'' \<mapsto> Plain (PStr ''~/media'')]
   \<and> fst (self_setup example_media (Some ''MEDIA'') example_process) = Inr (PStr ''/home/app/media'')"
proof -
  have 1: "fst (setup_value Map.empty ''DATA_DIR'' example_path example_process) = Inr ()"
    and v1: "fst (Value_setup example_path (Some ''DATA_DIR'') example_process) = Inr (PStr ''data'')"
    and m1: "\<not> multiple (cls example_path)"
    and 3: "fst (self_setup example_path (Some ''DATA_DIR'') example_process) = Inr (PStr ''/srv/app/data'')"
    by code_simp+
  have 2: "fst (snd (setup_value Map.empty ''DATA_DIR'' example_path example_process))
       = [''DATA_DIR'' \<mapsto> Plain (PStr ''data'')]"
    using setup_value_writes_cached [OF 1] v1 m1 by auto
  have 4: "fst (setup_value Map.empty ''MEDIA'' example_media example_process) = Inr ()"
    and v2: "fst (Value_setup example_media (Some ''MEDIA'') example_process) = Inr (PStr ''~/media'')"
    and m2: "\<not> multiple (cls example_media)"
    and 6: "fst (self_setup example_media (Some ''MEDIA'') example_process) = Inr (PStr ''/home/app/media'')"
    by code_simp+
  have 5: "fst (snd (setup_value Map.empty ''MEDIA'' example_media example_process))
       = [''MEDIA'' \<mapsto> Plain (PStr ''~/media'')]"
    using setup_value_writes_cached [OF 4] v2 m2 by auto
  show ?thesis
    by (intro conjI 1 2 3 4 5 6)
qed

section \<open>Dicts\<close>




section \<open>The default of a sequence\<close>



section \<open>Exceptions during injection\<close>

text \<open>
  C2, with \<open>reraise\<close> as the specification describes it. Once the module has been executed
  and the configuration class found, an exception leaves the body of the \<open>try\<close> statement
  exactly when one of its six steps raises it, the steps before having returned:
  \<open>pre_setup\<close>, \<open>setup\<close>, the instantiation, the enumeration of the uppercase attributes,
  their resolution into the module, and \<open>post_setup\<close> after the provenance attribute
  \<open>CONFIGURATION\<close> has been set. \<open>exec_module\<close> then raises a \<open>ConfigurationError\<close>, the
  configuration error of the specification, whose cause is that exception and whose
  message holds the qualified name \<open>module.class\<close>. In the resolution step, a call that
  raises and a descriptor whose \<open>setup_value\<close> raises end the loop with their exception.
  The traceback is not modelled: the cause is kept as a value.
\<close>

theorem injection_errors_chained:
  assumes "fst (super_exec w) = Inr ()"
  shows
   "(fst (injection ua mn cn c (snd (super_exec w))) = Inl err \<longrightarrow>
       fst (exec_module super_exec ua mn pkg cn (Some c) w)
         = Inl (ConfigurationError (setup_failure_message (cls_path mn cn)) err)
       \<and> kind_of (ConfigurationError (setup_failure_message (cls_path mn cn)) err) = Configuration
       \<and> (\<exists>before after. setup_failure_message (cls_path mn cn) = before @ mn @ ''.'' @ cn @ after))
    \<and> (fst (injection ua mn cn c w0) = Inl err \<longleftrightarrow>
         fst (pre_setup c w0) = Inl err
       \<or> (\<exists>w1. pre_setup c w0 = (Inr (), w1) \<and>
            (fst (cls_setup c w1) = Inl err
           \<or> (\<exists>w2. cls_setup c w1 = (Inr (), w2) \<and>
                (fst (instantiate c w2) = Inl err
               \<or> (\<exists>obj w3. instantiate c w2 = (Inr obj, w3) \<and>
                    (fst (ua obj w3) = Inl err
                   \<or> (\<exists>attributes w4. ua obj w3 = (Inr attributes, w4) \<and>
                        (fst (inject_attributes attributes w4) = Inl err
                       \<or> (\<exists>w5. inject_attributes attributes w4 = (Inr (), w5) \<and>
                            fst (post_setup c
                                   (setattr_mod ''CONFIGURATION'' (Plain (PStr (cls_path mn cn))) w5))
                              = Inl err))))))))))
    \<and> (fst (setup_value (module_ns w') name d (proc w')) = Inl err \<longrightarrow>
         fst (inject_attributes ((name, Callable False (Inr (Instance d))) # rest) w') = Inl err)
    \<and> fst (inject_attributes ((name, Callable False (Inl err)) # rest) w') = Inl err"
proof (intro conjI impI)
  assume "fst (injection ua mn cn c (snd (super_exec w))) = Inl err"
  then show "fst (exec_module super_exec ua mn pkg cn (Some c) w)
         = Inl (ConfigurationError (setup_failure_message (cls_path mn cn)) err)"
    using assms by (rule exec_module_reraises [rotated])
next
  show "kind_of (ConfigurationError (setup_failure_message (cls_path mn cn)) err) = Configuration"
    by simp
next
  have "setup_failure_message (cls_path mn cn)
          = (''Couldn'' @ apostrophe @ ''t setup configuration '' @ apostrophe) @ mn @ ''.'' @ cn @ apostrophe"
    by (simp add: setup_failure_message_def cls_path_def)
  then show "\<exists>before after. setup_failure_message (cls_path mn cn) = before @ mn @ ''.'' @ cn @ after"
    by blast
next
  show "fst (injection ua mn cn c w0) = Inl err \<longleftrightarrow>
         fst (pre_setup c w0) = Inl err
       \<or> (\<exists>w1. pre_setup c w0 = (Inr (), w1) \<and>
            (fst (cls_setup c w1) = Inl err
           \<or> (\<exists>w2. cls_setup c w1 = (Inr (), w2) \<and>
                (fst (instantiate c w2) = Inl err
               \<or> (\<exists>obj w3. instantiate c w2 = (Inr obj, w3) \<and>
                    (fst (ua obj w3) = Inl err
                   \<or> (\<exists>attributes w4. ua obj w3 = (Inr attributes, w4) \<and>
                        (fst (inject_attributes attributes w4) = Inl err
                       \<or> (\<exists>w5. inject_attributes attributes w4 = (Inr (), w5) \<and>
                            fst (post_setup c
                                   (setattr_mod ''CONFIGURATION'' (Plain (PStr (cls_path mn cn))) w5))
                              = Inl err)))))))))"
    by (rule injection_failure_iff)
next
  assume "fst (setup_value (module_ns w') name d (proc w')) = Inl err"
  then show "fst (inject_attributes ((name, Callable False (Inr (Instance d))) # rest) w') = Inl err"
    by (rule inject_attributes_descriptor_raises)
next
  show "fst (inject_attributes ((name, Callable False (Inl err)) # rest) w') = Inl err"
    by (rule inject_attributes_callable_raises)
qed

text \<open>
  Loading \<open>mysite.settings\<close> with the class \<open>Prod\<close> in \<open>example_process\<close>: \<open>DEBUG\<close> resolves,
  \<open>SECRET_KEY\<close> has no variable, \<open>setup_value\<close> raises \<open>ValueRetrievalError\<close>, and the loader
  raises the \<open>ConfigurationError\<close> that names \<open>mysite.settings.Prod\<close> and is chained to it.
\<close>

theorem injection_errors_chained_witness:
  "fst (ok_hook example_world) = Inr ()
   \<and> fst (injection example_attributes ''mysite.settings'' ''Prod'' example_configuration
             (snd (ok_hook example_world)))
       = Inl ValueRetrievalError
   \<and> fst (exec_module ok_hook example_attributes ''mysite.settings'' ''mysite'' ''Prod''
             (Some example_configuration) example_world)
       = Inl (ConfigurationError (setup_failure_message (cls_path ''mysite.settings'' ''Prod''))
                ValueRetrievalError)
   \<and> setup_failure_message (cls_path ''mysite.settings'' ''Prod'')
       = ''Couldn'' @ apostrophe @ ''t setup configuration '' @ apostrophe @ ''mysite.settings.Prod''
           @ apostrophe"
proof -
  have 1: "fst (ok_hook example_world) = Inr ()"
    and 2: "fst (injection example_attributes ''mysite.settings'' ''Prod'' example_configuration
             (snd (ok_hook example_world)))
       = Inl ValueRetrievalError"
    and 4: "setup_failure_message (cls_path ''mysite.settings'' ''Prod'')
       = ''Couldn'' @ apostrophe @ ''t setup configuration '' @ apostrophe @ ''mysite.settings.Prod''
           @ apostrophe"
    by code_simp+
  have 3: "fst (exec_module ok_hook example_attributes ''mysite.settings'' ''mysite'' ''Prod''
             (Some example_configuration) example_world)
       = Inl (ConfigurationError (setup_failure_message (cls_path ''mysite.settings'' ''Prod''))
                ValueRetrievalError)"
    by (rule injection_errors_chained [where super_exec = ok_hook and w = example_world
          and ua = example_attributes and c = example_configuration, OF 1,
          THEN conjunct1, THEN mp, OF 2, THEN conjunct1])
  show ?thesis
    by (intro conjI 1 2 3 4)
qed

end
